theory Spec2Isabelle
  imports Main
begin

section \<open>Data model\<close>

text \<open>
  The relayer keeps its records in document collections (the \<open>models\<close> module). A
  collection is a list in insertion order: \<open>findOne\<close> returns the first document that
  matches the query, \<open>create\<close> appends, and a method that saves a document writes the
  document back in place. The enumeration \<open>OrderStatus\<close> is the one of
  \<^verbatim>\<open>relayer.proto\<close>.
\<close>

datatype order_status = CREATED | PLACED | CANCELLED | FILLED | COMPLETED

datatype fill_status = FILL_CREATED | FILL_ACCEPTED | FILL_ERRORED

datatype foreign_type = ORDER | FILL

datatype invoice_type = INCOMING | OUTGOING

datatype invoice_purpose = FEE | DEPOSIT

record order =
  o_id :: string
  orderId :: string
  payTo :: string
  baseAmount :: int
  counterAmount :: int
  status :: order_status

record fill =
  f_id :: string
  fillId :: string
  order_id :: string
  takerPayTo :: string
  fillAmount :: int
  fill_status :: fill_status

text \<open>
  An invoice document. A field that the creating call does not give (it is left to the
  schema) is \<open>None\<close>; \<open>preimage\<close> is unset until a refund has been paid.
\<close>

record invoice =
  foreignId :: string
  foreignType :: "foreign_type option"
  paymentRequest :: string
  invoiceType :: "invoice_type option"
  purpose :: "invoice_purpose option"
  preimage :: "string option"

datatype log_level = LogError | LogInfo

text \<open>
  The state a call can read and change: the six collections, and the effects on the
  collaborators, each kept as the list of calls made so far (payments the engine was asked
  to make, events put on the event bus, values set on the messenger, lines given to the
  logger).
\<close>

record relayer =
  orders :: "order list"
  fills :: "fill list"
  feeInvoices :: "invoice list"
  depositInvoices :: "invoice list"
  feeRefundInvoices :: "invoice list"
  depositRefundInvoices :: "invoice list"
  payments :: "string list"
  events :: "(string \<times> order) list"
  messages :: "(string \<times> string) list"
  log_lines :: "(log_level \<times> string) list"

text \<open>
  The payment-channel engine is an external collaborator: its four queries are parameters
  of every call. A query is taken to answer; an engine promise that rejects is outside the
  model. Invoice values are integers, so the source's \<^verbatim>\<open>!==\<close> on two values is
  disequality of integers.
\<close>

record engine =
  isInvoicePaid :: "string \<Rightarrow> bool"
  getInvoiceValue :: "string \<Rightarrow> int"
  isBalanceSufficient :: "string \<Rightarrow> int \<Rightarrow> bool \<Rightarrow> bool"
  payInvoice :: "string \<Rightarrow> string"

text \<open>
  What a call throws: a \<open>PublicError\<close> (its message is meant for the caller), a plain
  \<open>Error\<close>, or the \<open>TypeError\<close> of reading a property of \<open>null\<close>.
\<close>

datatype error = PublicError string | PlainError string | TypeError

text \<open>What a call returns: the object literal \<^verbatim>\<open>{}\<close> or \<^verbatim>\<open>new EmptyResponse({})\<close>.\<close>

datatype response = EmptyObject | EmptyResponse

text \<open>The request parameters of PlaceOrder (\<open>po_\<close>) and of FillOrder (\<open>fo_\<close>).\<close>

record place_params =
  po_orderId :: string
  po_feeRefundPaymentRequest :: string
  po_depositRefundPaymentRequest :: string

record fill_params =
  fo_fillId :: string
  fo_feeRefundPaymentRequest :: string
  fo_depositRefundPaymentRequest :: string

section \<open>Collections\<close>

fun findOne :: "('a \<Rightarrow> bool) \<Rightarrow> 'a list \<Rightarrow> 'a option" where
  "findOne q [] = None"
| "findOne q (x # xs) = (if q x then Some x else findOne q xs)"

definition create :: "'a \<Rightarrow> 'a list \<Rightarrow> 'a list" where
  "create x xs = xs @ [x]"

text \<open>Saving the document that \<open>findOne q\<close> returned: the first match is rewritten.\<close>

fun saveFound :: "('a \<Rightarrow> bool) \<Rightarrow> ('a \<Rightarrow> 'a) \<Rightarrow> 'a list \<Rightarrow> 'a list" where
  "saveFound q f [] = []"
| "saveFound q f (x # xs) = (if q x then f x # xs else x # saveFound q f xs)"

text \<open>Saving the document that the last \<open>create\<close> returned: the last one is rewritten.\<close>

fun saveCreated :: "('a \<Rightarrow> 'a) \<Rightarrow> 'a list \<Rightarrow> 'a list" where
  "saveCreated f [] = []"
| "saveCreated f [x] = [f x]"
| "saveCreated f (x # y # ys) = x # saveCreated f (y # ys)"

definition logger_error :: "string \<Rightarrow> relayer \<Rightarrow> relayer" where
  "logger_error m s = s\<lparr>log_lines := log_lines s @ [(LogError, m)]\<rparr>"

definition logger_info :: "string \<Rightarrow> relayer \<Rightarrow> relayer" where
  "logger_info m s = s\<lparr>log_lines := log_lines s @ [(LogInfo, m)]\<rparr>"

text \<open>JavaScript's \<^verbatim>\<open>!x\<close> on a preimage: unset, or the empty string.\<close>

definition falsy :: "string option \<Rightarrow> bool" where
  "falsy p = (p = None \<or> p = Some [])"

section \<open>Methods of the models\<close>

text \<open>
  Modelled from the spec: \<^verbatim>\<open>order.place()\<close> of the models module, which is not
  among the sources; the spec has it take the order to PLACED.
\<close>

definition Order_place :: "order \<Rightarrow> order" where
  "Order_place o' = o'\<lparr>status := PLACED\<rparr>"

text \<open>
  Modelled from the spec: \<^verbatim>\<open>order.fill()\<close> of the models module, which is not
  among the sources; the spec has it mark the order as claimed by a fill (status FILLED).
\<close>

definition Order_fill :: "order \<Rightarrow> order" where
  "Order_fill o' = o'\<lparr>status := FILLED\<rparr>"

text \<open>
  Modelled from the spec: \<^verbatim>\<open>fill.accept()\<close> of the models module, which is not
  among the sources; the spec has it mark the fill accepted.
\<close>

definition Fill_accept :: "fill \<Rightarrow> fill" where
  "Fill_accept f = f\<lparr>fill_status := FILL_ACCEPTED\<rparr>"

text \<open>
  Modelled from the spec: \<^verbatim>\<open>invoice.markAsPaid(preimage)\<close> of the models module,
  which is not among the sources; the spec has it mark the refund invoice with its payment
  preimage.
\<close>

definition markAsPaid :: "string \<Rightarrow> invoice \<Rightarrow> invoice" where
  "markAsPaid p i = i\<lparr>preimage := Some p\<rparr>"

section \<open>Messages for the caller\<close>

definition NOT_PLACED :: "string \<Rightarrow> string" where
  "NOT_PLACED i = ''Could not place order. Please create another order and try again. Order id: '' @ i"

definition FEE_NOT_PAID :: "string \<Rightarrow> string" where
  "FEE_NOT_PAID i = ''Fee Invoice has not been paid. Order id: '' @ i"

definition DEPOSIT_NOT_PAID :: "string \<Rightarrow> string" where
  "DEPOSIT_NOT_PAID i = ''Deposit Invoice has not been paid. Order id: '' @ i"

definition FEE_VALUES_UNEQUAL :: "string \<Rightarrow> string" where
  "FEE_VALUES_UNEQUAL i = ''Fee Invoice Refund value is not the same as Fee Invoice value. Order id: '' @ i"

definition DEPOSIT_VALUES_UNEQUAL :: "string \<Rightarrow> string" where
  "DEPOSIT_VALUES_UNEQUAL i = ''Deposit Invoice Refund value is not the same as Deposit Invoice value. Order id: '' @ i"

definition INSUFFICIENT_FUNDS_OUTBOUND :: "string \<Rightarrow> string" where
  "INSUFFICIENT_FUNDS_OUTBOUND i = ''Outbound channel does not have sufficient balance. Order id: '' @ i"

definition INSUFFICIENT_FUNDS_INBOUND :: "string \<Rightarrow> string" where
  "INSUFFICIENT_FUNDS_INBOUND i = ''Inbound channel does not have sufficient balance. Order id: '' @ i"

definition ORDER_NOT_PLACED :: "string \<Rightarrow> string" where
  "ORDER_NOT_PLACED i = ''Order is not in a placed status, refunds have been executed. Order id: '' @ i"

section \<open>PlaceOrder\<close>

text \<open>
  The branch of \<^verbatim>\<open>placeOrder\<close> for an order in CANCELLED state (lines 112 to 134):
  each refund invoice is looked up by the order's id, and paid unless the document found
  carries a preimage already; reading \<^verbatim>\<open>.preimage\<close> of a lookup that found nothing
  throws.
\<close>

definition refundCancelled :: "engine \<Rightarrow> order \<Rightarrow> relayer \<Rightarrow> (error + response) \<times> relayer" where
  "refundCancelled eng ord s =
     (let s1 = logger_info ''Order is in cancelled state, refunding'' s in
      case findOne (\<lambda>i. foreignId i = o_id ord) (feeRefundInvoices s1) of
        None \<Rightarrow> (Inl TypeError, s1)
      | Some feeRefundInvoice \<Rightarrow>
          (let s2 = (if falsy (preimage feeRefundInvoice)
                     then s1\<lparr>payments := payments s1 @ [paymentRequest feeRefundInvoice],
                             feeRefundInvoices :=
                               saveFound (\<lambda>i. foreignId i = o_id ord)
                                 (\<lambda>i. i\<lparr>preimage :=
                                           Some (payInvoice eng (paymentRequest feeRefundInvoice))\<rparr>)
                                 (feeRefundInvoices s1)\<rparr>
                     else s1)
           in case findOne (\<lambda>i. foreignId i = o_id ord) (depositRefundInvoices s2) of
                None \<Rightarrow> (Inl TypeError, s2)
              | Some depositRefundInvoice \<Rightarrow>
                  (let s3 = (if falsy (preimage depositRefundInvoice)
                             then s2\<lparr>payments := payments s2 @ [paymentRequest depositRefundInvoice],
                                     depositRefundInvoices :=
                                       saveFound (\<lambda>i. foreignId i = o_id ord)
                                         (\<lambda>i. i\<lparr>preimage :=
                                                   Some (payInvoice eng
                                                           (paymentRequest depositRefundInvoice))\<rparr>)
                                         (depositRefundInvoices s2)\<rparr>
                             else s2)
                   in (Inr EmptyObject, logger_info ''Refunding complete'' s3))))"

text \<open>
  \<^verbatim>\<open>placeOrder\<close> (place-order.js, lines 38 to 142). A \<^verbatim>\<open>throw\<close> is the \<open>Inl\<close>
  result; the state returned with it holds what the call had done before.
\<close>

definition placeOrder :: "engine \<Rightarrow> place_params \<Rightarrow> relayer \<Rightarrow> (error + response) \<times> relayer" where
  "placeOrder eng params s =
     (case findOne (\<lambda>x. orderId x = po_orderId params) (orders s) of
        None \<Rightarrow> (Inl TypeError, s)
      | Some ord \<Rightarrow>
      (case (findOne (\<lambda>i. foreignId i = o_id ord) (feeInvoices s),
             findOne (\<lambda>i. foreignId i = o_id ord) (depositInvoices s)) of
        (Some feeInvoice, Some depositInvoice) \<Rightarrow>
          if \<not> isInvoicePaid eng (paymentRequest feeInvoice)
          then (Inl (PublicError (FEE_NOT_PAID (orderId ord))),
                logger_error ''Fee not paid for order'' s)
          else if \<not> isInvoicePaid eng (paymentRequest depositInvoice)
          then (Inl (PublicError (DEPOSIT_NOT_PAID (orderId ord))),
                logger_error ''Deposit not paid for order'' s)
          else if \<not> isBalanceSufficient eng (drop 3 (payTo ord)) (counterAmount ord) True
          then (Inl (PublicError (INSUFFICIENT_FUNDS_OUTBOUND (orderId ord))),
                logger_error ''Insufficient funds in outbound channel for order'' s)
          else if \<not> isBalanceSufficient eng (drop 3 (payTo ord)) (baseAmount ord) False
          then (Inl (PublicError (INSUFFICIENT_FUNDS_INBOUND (orderId ord))),
                logger_error ''Insufficient funds in inbound channel for order'' s)
          else if getInvoiceValue eng (paymentRequest feeInvoice)
                  \<noteq> getInvoiceValue eng (po_feeRefundPaymentRequest params)
          then (Inl (PublicError (FEE_VALUES_UNEQUAL (orderId ord))),
                logger_error ''Fee invoice refund amount does not equal fee invoice amount'' s)
          else if getInvoiceValue eng (paymentRequest depositInvoice)
                  \<noteq> getInvoiceValue eng (po_depositRefundPaymentRequest params)
          then (Inl (PublicError (DEPOSIT_VALUES_UNEQUAL (orderId ord))),
                logger_error ''Deposit invoice refund amount does not equal deposit invoice amount'' s)
          else
            (let s1 = s\<lparr>feeRefundInvoices :=
                          create \<lparr>foreignId = o_id ord, foreignType = None,
                                  paymentRequest = po_feeRefundPaymentRequest params,
                                  invoiceType = None, purpose = None, preimage = None\<rparr>
                            (feeRefundInvoices s),
                        depositRefundInvoices :=
                          create \<lparr>foreignId = o_id ord, foreignType = None,
                                  paymentRequest = po_depositRefundPaymentRequest params,
                                  invoiceType = None, purpose = None, preimage = None\<rparr>
                            (depositRefundInvoices s)\<rparr>;
                 s2 = logger_info ''Refund invoices have been stored on the Relayer'' s1
             in if status ord = CANCELLED then refundCancelled eng ord s2
                else
                  (let s3 = s2\<lparr>orders := saveFound (\<lambda>x. orderId x = po_orderId params)
                                             Order_place (orders s2)\<rparr>;
                       s4 = s3\<lparr>events := events s3 @ [(''order:placed'', Order_place ord)]\<rparr>
                   in (Inr EmptyResponse, logger_info ''order:placed'' s4)))
      | _ \<Rightarrow> (Inl (PublicError (NOT_PLACED (orderId ord))),
              logger_error ''Fee invoice could not be found for order'' s)))"

section \<open>FillOrder\<close>

text \<open>\<^verbatim>\<open>invoicesForFill\<close> (fill-order.js, lines 107 to 130).\<close>

definition invoicesForFill :: "string \<Rightarrow> relayer \<Rightarrow> error + invoice \<times> invoice" where
  "invoicesForFill fid s =
     (let feeInvoice =
            findOne (\<lambda>i. foreignId i = fid \<and> foreignType i = Some FILL \<and>
                          invoiceType i = Some INCOMING \<and> purpose i = Some FEE) (feeInvoices s);
          depositInvoice =
            findOne (\<lambda>i. foreignId i = fid \<and> foreignType i = Some FILL \<and>
                          invoiceType i = Some INCOMING \<and> purpose i = Some DEPOSIT) (depositInvoices s)
      in case feeInvoice of
           None \<Rightarrow> Inl (PlainError (''Could not find fee invoice associated with Fill '' @ fid @ ''.''))
         | Some fi \<Rightarrow>
             (case depositInvoice of
                None \<Rightarrow> Inl (PlainError (''Could not find deposit invoice associated with Fill ''
                                           @ fid @ ''.''))
              | Some di \<Rightarrow> Inr (fi, di)))"

text \<open>\<^verbatim>\<open>createRefundInvoices\<close> (lines 139 to 156): the two documents are appended.\<close>

definition createRefundInvoices :: "string \<Rightarrow> string \<Rightarrow> string \<Rightarrow> relayer \<Rightarrow> relayer" where
  "createRefundInvoices fid feeRefundPaymentRequest depositRefundPaymentRequest s =
     s\<lparr>feeRefundInvoices :=
         create \<lparr>foreignId = fid, foreignType = Some FILL,
                 paymentRequest = feeRefundPaymentRequest,
                 invoiceType = Some OUTGOING, purpose = Some FEE, preimage = None\<rparr>
           (feeRefundInvoices s),
       depositRefundInvoices :=
         create \<lparr>foreignId = fid, foreignType = Some FILL,
                 paymentRequest = depositRefundPaymentRequest,
                 invoiceType = Some OUTGOING, purpose = Some DEPOSIT, preimage = None\<rparr>
           (depositRefundInvoices s)\<rparr>"

text \<open>
  \<^verbatim>\<open>checkChannelBalances\<close> (lines 167 to 195). The four queries are put to the engine
  together; the first answer that is not sufficient, in the order maker outbound, maker
  inbound, taker outbound, taker inbound, decides the error. The third argument of
  \<open>isBalanceSufficient\<close> is the \<^verbatim>\<open>outbound\<close> flag.
\<close>

definition checkChannelBalances :: "order \<Rightarrow> fill \<Rightarrow> engine \<Rightarrow> relayer \<Rightarrow> (error + unit) \<times> relayer" where
  "checkChannelBalances ord fil eng s =
     (let sufficientBalanceInOutboundChannelMaker =
            isBalanceSufficient eng (drop 3 (payTo ord)) (counterAmount ord) True;
          sufficientBalanceInInboundChannelMaker =
            isBalanceSufficient eng (drop 3 (payTo ord)) (baseAmount ord) False;
          sufficientBalanceInOutboundChannelTaker =
            isBalanceSufficient eng (drop 3 (takerPayTo fil)) (counterAmount ord) True;
          sufficientBalanceInInboundChannelTaker =
            isBalanceSufficient eng (drop 3 (takerPayTo fil)) (baseAmount ord) False
      in if \<not> sufficientBalanceInOutboundChannelMaker
         then (Inl (PublicError (INSUFFICIENT_FUNDS_OUTBOUND (orderId ord))),
               logger_error ''Insufficient funds in outbound channel for order'' s)
         else if \<not> sufficientBalanceInInboundChannelMaker
         then (Inl (PublicError (INSUFFICIENT_FUNDS_INBOUND (orderId ord))),
               logger_error ''Insufficient funds in inbound channel for order'' s)
         else if \<not> sufficientBalanceInOutboundChannelTaker
         then (Inl (PublicError (INSUFFICIENT_FUNDS_OUTBOUND (orderId ord))),
               logger_error ''Insufficient funds in outbound channel for order'' s)
         else if \<not> sufficientBalanceInInboundChannelTaker
         then (Inl (PublicError (INSUFFICIENT_FUNDS_INBOUND (orderId ord))),
               logger_error ''Insufficient funds in inbound channel for order'' s)
         else (Inr (), s))"

text \<open>\<^verbatim>\<open>fillOrder\<close> (fill-order.js, lines 32 to 100).\<close>

definition fillOrder :: "engine \<Rightarrow> fill_params \<Rightarrow> relayer \<Rightarrow> (error + response) \<times> relayer" where
  "fillOrder eng params s =
     (case findOne (\<lambda>f. fillId f = fo_fillId params) (fills s) of
        None \<Rightarrow> (Inl (PlainError (''No fill with ID '' @ fo_fillId params @ ''.'')), s)
      | Some fil \<Rightarrow>
      (case findOne (\<lambda>x. o_id x = order_id fil) (orders s) of
        None \<Rightarrow> (Inl (PlainError (''No order associated with fill '' @ fillId fil @ ''.'')), s)
      | Some ord \<Rightarrow>
      (case invoicesForFill (f_id fil) s of
        Inl e \<Rightarrow> (Inl e, s)
      | Inr (feeInvoice, depositInvoice) \<Rightarrow>
          if \<not> isInvoicePaid eng (paymentRequest feeInvoice)
          then (Inl (PlainError (''Fee Invoice for Order '' @ orderId ord @ '' has not been paid.'')), s)
          else if \<not> isInvoicePaid eng (paymentRequest depositInvoice)
          then (Inl (PlainError (''Deposit Invoice for Order '' @ orderId ord
                                  @ '' has not been paid.'')), s)
          else if getInvoiceValue eng (paymentRequest feeInvoice)
                  \<noteq> getInvoiceValue eng (fo_feeRefundPaymentRequest params)
          then (Inl (PublicError (FEE_VALUES_UNEQUAL (orderId ord))),
                logger_error ''Fee invoice refund amount does not equal fee invoice amount'' s)
          else if getInvoiceValue eng (paymentRequest depositInvoice)
                  \<noteq> getInvoiceValue eng (fo_depositRefundPaymentRequest params)
          then (Inl (PublicError (DEPOSIT_VALUES_UNEQUAL (orderId ord))),
                logger_error ''Deposit invoice refund amount does not equal deposit invoice amount'' s)
          else
            (let s1 = createRefundInvoices (f_id fil) (fo_feeRefundPaymentRequest params)
                        (fo_depositRefundPaymentRequest params) s;
                 s2 = logger_info ''Refund invoices have been stored on the Relayer'' s1
             in case checkChannelBalances ord fil eng s2 of
                  (Inl e, s3) \<Rightarrow> (Inl e, s3)
                | (Inr _, s3) \<Rightarrow>
                    if status ord \<noteq> PLACED
                    then
                      (let s4 = s3\<lparr>payments := payments s3 @
                                     [fo_feeRefundPaymentRequest params,
                                      fo_depositRefundPaymentRequest params]\<rparr>;
                           s5 = s4\<lparr>feeRefundInvoices :=
                                     saveCreated
                                       (markAsPaid (payInvoice eng (fo_feeRefundPaymentRequest params)))
                                       (feeRefundInvoices s4)\<rparr>;
                           s6 = s5\<lparr>depositRefundInvoices :=
                                     saveCreated
                                       (markAsPaid (payInvoice eng (fo_depositRefundPaymentRequest params)))
                                       (depositRefundInvoices s5)\<rparr>
                       in (Inl (PublicError (ORDER_NOT_PLACED (orderId ord))), s6))
                    else
                      (let s4 = s3\<lparr>fills := saveFound (\<lambda>f. fillId f = fo_fillId params)
                                                Fill_accept (fills s3)\<rparr>;
                           s5 = s4\<lparr>orders := saveFound (\<lambda>x. o_id x = order_id fil)
                                                 Order_fill (orders s4)\<rparr>;
                           s6 = s5\<lparr>messages := messages s5 @ [(''fill:'' @ o_id ord, fillId fil)]\<rparr>
                       in (Inr EmptyObject, logger_info ''order:filling'' s6))))))"

section \<open>FillOrder, its reads apart from its writes\<close>

text \<open>
  \<^verbatim>\<open>fillOrder\<close> once more, with two states. The call reads the fill, the order and
  the two invoices at lines 35 to 42 and then awaits the engine; what it stores and saves
  (lines 71 and 80 to 96) it writes later, and another call can run in between. \<open>s0\<close> is
  the state the documents are read from, \<open>s\<close> the state the call writes to. Every test
  is on the documents read: line 80 tests the status of the order read at line 39. A
  \<^verbatim>\<open>save\<close> writes the field that the method set to the stored document.
\<close>

definition fillOrderAt :: "engine \<Rightarrow> fill_params \<Rightarrow> relayer \<Rightarrow> relayer \<Rightarrow> (error + response) \<times> relayer" where
  "fillOrderAt eng params s0 s =
     (case findOne (\<lambda>f. fillId f = fo_fillId params) (fills s0) of
        None \<Rightarrow> (Inl (PlainError (''No fill with ID '' @ fo_fillId params @ ''.'')), s)
      | Some fil \<Rightarrow>
      (case findOne (\<lambda>x. o_id x = order_id fil) (orders s0) of
        None \<Rightarrow> (Inl (PlainError (''No order associated with fill '' @ fillId fil @ ''.'')), s)
      | Some ord \<Rightarrow>
      (case invoicesForFill (f_id fil) s0 of
        Inl e \<Rightarrow> (Inl e, s)
      | Inr (feeInvoice, depositInvoice) \<Rightarrow>
          if \<not> isInvoicePaid eng (paymentRequest feeInvoice)
          then (Inl (PlainError (''Fee Invoice for Order '' @ orderId ord @ '' has not been paid.'')), s)
          else if \<not> isInvoicePaid eng (paymentRequest depositInvoice)
          then (Inl (PlainError (''Deposit Invoice for Order '' @ orderId ord
                                  @ '' has not been paid.'')), s)
          else if getInvoiceValue eng (paymentRequest feeInvoice)
                  \<noteq> getInvoiceValue eng (fo_feeRefundPaymentRequest params)
          then (Inl (PublicError (FEE_VALUES_UNEQUAL (orderId ord))),
                logger_error ''Fee invoice refund amount does not equal fee invoice amount'' s)
          else if getInvoiceValue eng (paymentRequest depositInvoice)
                  \<noteq> getInvoiceValue eng (fo_depositRefundPaymentRequest params)
          then (Inl (PublicError (DEPOSIT_VALUES_UNEQUAL (orderId ord))),
                logger_error ''Deposit invoice refund amount does not equal deposit invoice amount'' s)
          else
            (let s1 = createRefundInvoices (f_id fil) (fo_feeRefundPaymentRequest params)
                        (fo_depositRefundPaymentRequest params) s;
                 s2 = logger_info ''Refund invoices have been stored on the Relayer'' s1
             in case checkChannelBalances ord fil eng s2 of
                  (Inl e, s3) \<Rightarrow> (Inl e, s3)
                | (Inr _, s3) \<Rightarrow>
                    if status ord \<noteq> PLACED
                    then
                      (let s4 = s3\<lparr>payments := payments s3 @
                                     [fo_feeRefundPaymentRequest params,
                                      fo_depositRefundPaymentRequest params]\<rparr>;
                           s5 = s4\<lparr>feeRefundInvoices :=
                                     saveCreated
                                       (markAsPaid (payInvoice eng (fo_feeRefundPaymentRequest params)))
                                       (feeRefundInvoices s4)\<rparr>;
                           s6 = s5\<lparr>depositRefundInvoices :=
                                     saveCreated
                                       (markAsPaid (payInvoice eng (fo_depositRefundPaymentRequest params)))
                                       (depositRefundInvoices s5)\<rparr>
                       in (Inl (PublicError (ORDER_NOT_PLACED (orderId ord))), s6))
                    else
                      (let s4 = s3\<lparr>fills := saveFound (\<lambda>f. fillId f = fo_fillId params)
                                                Fill_accept (fills s3)\<rparr>;
                           s5 = s4\<lparr>orders := saveFound (\<lambda>x. o_id x = order_id fil)
                                                 Order_fill (orders s4)\<rparr>;
                           s6 = s5\<lparr>messages := messages s5 @ [(''fill:'' @ o_id ord, fillId fil)]\<rparr>
                       in (Inr EmptyObject, logger_info ''order:filling'' s6))))))"

section \<open>The notification channel\<close>

text \<open>
  Modelled from the spec: the Notification Channel, the messenger that
  \<^verbatim>\<open>fillOrder\<close> calls at line 96 (\<^verbatim>\<open>messenger.set\<close>); its code is not among the
  sources. The spec has it a rendezvous with one slot per key: \<open>deliver\<close> does not block,
  stores the value under the key and wakes whoever waits on the key; \<open>awaitOnce\<close> is
  given the value at once when one has been delivered, and waits otherwise; a delivered
  value stays retrievable until a later \<open>deliver\<close> on the key supersedes it. A waiter is
  named by a number; \<open>woken\<close> lists the waiters woken so far, each with its value.
\<close>

record channel =
  slots :: "string \<Rightarrow> string option"
  waiting :: "(string \<times> nat) list"
  woken :: "(nat \<times> string) list"

definition newChannel :: channel where
  "newChannel = \<lparr>slots = (\<lambda>key. None), waiting = [], woken = []\<rparr>"

definition deliver :: "string \<Rightarrow> string \<Rightarrow> channel \<Rightarrow> channel" where
  "deliver key v ch =
     ch\<lparr>slots := (slots ch)(key := Some v),
        waiting := filter (\<lambda>w. fst w \<noteq> key) (waiting ch),
        woken := woken ch @ map (\<lambda>w. (snd w, v)) (filter (\<lambda>w. fst w = key) (waiting ch))\<rparr>"

text \<open>\<open>awaitOnce\<close> for the waiter \<open>p\<close>: \<open>Some\<close> of the value when it completes at once, \<open>None\<close> when it waits.\<close>

definition awaitOnce :: "nat \<Rightarrow> string \<Rightarrow> channel \<Rightarrow> string option \<times> channel" where
  "awaitOnce p key ch =
     (case slots ch key of
        Some v \<Rightarrow> (Some v, ch)
      | None \<Rightarrow> (None, ch\<lparr>waiting := waiting ch @ [(key, p)]\<rparr>))"

text \<open>The messenger after the \<^verbatim>\<open>set\<close> calls that the relayer has recorded, oldest first.\<close>

fun setAll :: "(string \<times> string) list \<Rightarrow> channel \<Rightarrow> channel" where
  "setAll [] ch = ch"
| "setAll (m # ms) ch = setAll ms (deliver (fst m) (snd m) ch)"

section \<open>A concrete relayer\<close>

text \<open>
  The scenario of the specification: order \<open>o1\<close> (base amount 100000, counter amount
  500000) with its fee and deposit invoices, and fill \<open>f1\<close> against it with its own.
  Addresses carry a three-character prefix, which the calls drop.
\<close>

definition exOrder :: "order_status \<Rightarrow> order" where
  "exOrder st = \<lparr>o_id = ''a1'', orderId = ''o1'', payTo = ''ln:maker'',
                  baseAmount = 100000, counterAmount = 500000, status = st\<rparr>"

definition exFill :: fill where
  "exFill = \<lparr>f_id = ''b1'', fillId = ''f1'', order_id = ''a1'', takerPayTo = ''ln:taker'',
              fillAmount = 100000, fill_status = FILL_CREATED\<rparr>"

definition exInvoice :: "string \<Rightarrow> foreign_type \<Rightarrow> invoice_purpose \<Rightarrow> string \<Rightarrow> invoice" where
  "exInvoice fid ft pu pr = \<lparr>foreignId = fid, foreignType = Some ft, paymentRequest = pr,
                             invoiceType = Some INCOMING, purpose = Some pu, preimage = None\<rparr>"

definition exRelayer :: "order_status \<Rightarrow> relayer" where
  "exRelayer st =
     \<lparr>orders = [exOrder st], fills = [exFill],
      feeInvoices = [exInvoice ''a1'' ORDER FEE ''fee-o1'', exInvoice ''b1'' FILL FEE ''fee-f1''],
      depositInvoices = [exInvoice ''a1'' ORDER DEPOSIT ''dep-o1'',
                         exInvoice ''b1'' FILL DEPOSIT ''dep-f1''],
      feeRefundInvoices = [], depositRefundInvoices = [],
      payments = [], events = [], messages = [], log_lines = []\<rparr>"

text \<open>
  An engine for which every invoice is paid and worth 100, every balance is sufficient, and
  the preimage of a payment is the payment request behind \<open>paid:\<close>.
\<close>

definition exEngine :: engine where
  "exEngine = \<lparr>isInvoicePaid = (\<lambda>pr. True), getInvoiceValue = (\<lambda>pr. 100),
                isBalanceSufficient = (\<lambda>a v out. True), payInvoice = (\<lambda>pr. ''paid:'' @ pr)\<rparr>"

definition exPlace :: place_params where
  "exPlace = \<lparr>po_orderId = ''o1'', po_feeRefundPaymentRequest = ''refund-fee-o1'',
               po_depositRefundPaymentRequest = ''refund-dep-o1''\<rparr>"

definition exFillParams :: fill_params where
  "exFillParams = \<lparr>fo_fillId = ''f1'', fo_feeRefundPaymentRequest = ''refund-fee-f1'',
                    fo_depositRefundPaymentRequest = ''refund-dep-f1''\<rparr>"

text \<open>
  A second fill \<open>f2\<close>, of another taker, against the same order, with its own invoices;
  \<open>exRace\<close> is the relayer with the order placed and both fills created.
\<close>

definition exFill2 :: fill where
  "exFill2 = \<lparr>f_id = ''b2'', fillId = ''f2'', order_id = ''a1'', takerPayTo = ''ln:other'',
               fillAmount = 100000, fill_status = FILL_CREATED\<rparr>"

definition exFillParams2 :: fill_params where
  "exFillParams2 = \<lparr>fo_fillId = ''f2'', fo_feeRefundPaymentRequest = ''refund-fee-f2'',
                     fo_depositRefundPaymentRequest = ''refund-dep-f2''\<rparr>"

definition exRace :: relayer where
  "exRace =
     \<lparr>orders = [exOrder PLACED], fills = [exFill, exFill2],
      feeInvoices = [exInvoice ''a1'' ORDER FEE ''fee-o1'', exInvoice ''b1'' FILL FEE ''fee-f1'',
                     exInvoice ''b2'' FILL FEE ''fee-f2''],
      depositInvoices = [exInvoice ''a1'' ORDER DEPOSIT ''dep-o1'',
                         exInvoice ''b1'' FILL DEPOSIT ''dep-f1'',
                         exInvoice ''b2'' FILL DEPOSIT ''dep-f2''],
      feeRefundInvoices = [], depositRefundInvoices = [],
      payments = [], events = [], messages = [], log_lines = []\<rparr>"

lemmas ex_defs =
  exOrder_def exFill_def exInvoice_def exRelayer_def exEngine_def exPlace_def exFillParams_def
  exFill2_def exFillParams2_def exRace_def

section \<open>Facts about the collections\<close>

lemma findOne_saveFound:
  "(\<And>x. q x \<Longrightarrow> q (f x)) \<Longrightarrow> findOne q (saveFound q f xs) = map_option f (findOne q xs)"
  by (induction xs) auto


lemma saveCreated_create: "saveCreated f (create x xs) = xs @ [f x]"
  unfolding create_def by (induction f xs rule: saveCreated.induct) auto

lemma findOne_map: "findOne q (map g xs) = map_option g (findOne (\<lambda>x. q (g x)) xs)"
  by (induction xs) auto

lemma setAll_append: "setAll (ms @ [m]) ch = deliver (fst m) (snd m) (setAll ms ch)"
  by (induction ms arbitrary: ch) auto

section \<open>What the cancelled branch leaves alone\<close>

lemma refundCancelled_frame:
  "orders (snd (refundCancelled eng ord s)) = orders s"
  "events (snd (refundCancelled eng ord s)) = events s"
  "messages (snd (refundCancelled eng ord s)) = messages s"
  "fst (refundCancelled eng ord s) \<noteq> Inr EmptyResponse"
  "fst (refundCancelled eng ord s) \<noteq> Inl (PublicError m)"
  by (simp_all add: refundCancelled_def Let_def logger_info_def split: option.splits)

section \<open>FillOrder never reads the fill amount\<close>

lemma fillOrder_ignores_fillAmount:
  "fst (fillOrder eng params (s\<lparr>fills := map (\<lambda>f. f\<lparr>fillAmount := amount f\<rparr>) (fills s)\<rparr>))
     = fst (fillOrder eng params s)"
  unfolding fillOrder_def
  by (simp add: findOne_map invoicesForFill_def Let_def checkChannelBalances_def
        split: option.splits sum.splits prod.splits)

section \<open>FillOrder with its reads apart: the same call, and the same outcome\<close>

text \<open>
  With one state for both, \<open>fillOrderAt\<close> is \<open>fillOrder\<close>. Whatever the state it writes
  to, what it returns or throws is what \<open>fillOrder\<close> returns or throws on the state it
  read: the writes of another call in between change nothing of the outcome.
\<close>

lemma fillOrderAt_same: "fillOrderAt eng params s s = fillOrder eng params s"
  by (simp add: fillOrderAt_def fillOrder_def)

lemma fillOrderAt_outcome: "fst (fillOrderAt eng params s0 s) = fst (fillOrder eng params s0)"
  unfolding fillOrderAt_def fillOrder_def
  by (simp add: Let_def checkChannelBalances_def split: option.splits sum.splits prod.splits)

section \<open>Facts about the concrete relayer\<close>

lemma ex_order_by_orderId:
  "findOne (\<lambda>x. orderId x = po_orderId exPlace) (orders (exRelayer st)) = Some (exOrder st)"
  by (simp add: ex_defs)

lemma ex_fill_found:
  "findOne (\<lambda>f. fillId f = fo_fillId exFillParams) (fills (exRelayer st)) = Some exFill"
  by (simp add: ex_defs)

lemma ex_order_found:
  "findOne (\<lambda>x. o_id x = order_id exFill) (orders (exRelayer st)) = Some (exOrder st)"
  by (simp add: ex_defs)

lemma ex_invoicesForFill:
  "invoicesForFill (f_id exFill) (exRelayer st)
     = Inr (exInvoice ''b1'' FILL FEE ''fee-f1'', exInvoice ''b1'' FILL DEPOSIT ''dep-f1'')"
  by (simp add: ex_defs invoicesForFill_def)

lemma ex_engine_answers:
  "isInvoicePaid exEngine p"
  "getInvoiceValue exEngine p = getInvoiceValue exEngine p'"
  "isBalanceSufficient exEngine ad v out"
  by (simp_all add: ex_defs)



lemma ex_race_first:
  "fillOrder exEngine exFillParams exRace =
     (Inr EmptyObject,
      exRace\<lparr>fills := [exFill\<lparr>fill_status := FILL_ACCEPTED\<rparr>, exFill2],
             orders := [exOrder FILLED],
             feeRefundInvoices :=
               [\<lparr>foreignId = ''b1'', foreignType = Some FILL, paymentRequest = ''refund-fee-f1'',
                 invoiceType = Some OUTGOING, purpose = Some FEE, preimage = None\<rparr>],
             depositRefundInvoices :=
               [\<lparr>foreignId = ''b1'', foreignType = Some FILL, paymentRequest = ''refund-dep-f1'',
                 invoiceType = Some OUTGOING, purpose = Some DEPOSIT, preimage = None\<rparr>],
             messages := [(''fill:a1'', ''f1'')],
             log_lines := [(LogInfo, ''Refund invoices have been stored on the Relayer''),
                           (LogInfo, ''order:filling'')]\<rparr>)"
  by (simp add: fillOrder_def invoicesForFill_def checkChannelBalances_def createRefundInvoices_def
        create_def logger_info_def Fill_accept_def Order_fill_def Let_def ex_defs)

section \<open>PlaceOrder: what gates the transition to PLACED\<close>

text \<open>
  C1. For a PlaceOrder call on an order that exists: the call reaches \<^verbatim>\<open>order.place()\<close>
  (it returns the \<open>EmptyResponse\<close>, changes an order, or emits the placed event) only if
  the fee and the deposit invoice exist, the engine reports both paid, and the value of
  each refund request equals the value of its invoice as integers. If one of these
  conditions fails, the call throws a \<open>PublicError\<close> and leaves everything but the log as
  it was; in particular the order's status is unchanged.
\<close>

theorem placeOrder_placed_only_if_paid_and_equal:
  fixes eng params s
  defines "r \<equiv> placeOrder eng params s"
  assumes "findOne (\<lambda>x. orderId x = po_orderId params) (orders s) = Some ord"
  shows "((fst r = Inr EmptyResponse \<or> orders (snd r) \<noteq> orders s \<or> events (snd r) \<noteq> events s)
            \<longrightarrow> (\<exists>feeInvoice depositInvoice.
                   findOne (\<lambda>i. foreignId i = o_id ord) (feeInvoices s) = Some feeInvoice \<and>
                   findOne (\<lambda>i. foreignId i = o_id ord) (depositInvoices s) = Some depositInvoice \<and>
                   isInvoicePaid eng (paymentRequest feeInvoice) \<and>
                   isInvoicePaid eng (paymentRequest depositInvoice) \<and>
                   getInvoiceValue eng (po_feeRefundPaymentRequest params)
                     = getInvoiceValue eng (paymentRequest feeInvoice) \<and>
                   getInvoiceValue eng (po_depositRefundPaymentRequest params)
                     = getInvoiceValue eng (paymentRequest depositInvoice)))
       \<and> (\<not> (\<exists>feeInvoice depositInvoice.
                   findOne (\<lambda>i. foreignId i = o_id ord) (feeInvoices s) = Some feeInvoice \<and>
                   findOne (\<lambda>i. foreignId i = o_id ord) (depositInvoices s) = Some depositInvoice \<and>
                   isInvoicePaid eng (paymentRequest feeInvoice) \<and>
                   isInvoicePaid eng (paymentRequest depositInvoice) \<and>
                   getInvoiceValue eng (po_feeRefundPaymentRequest params)
                     = getInvoiceValue eng (paymentRequest feeInvoice) \<and>
                   getInvoiceValue eng (po_depositRefundPaymentRequest params)
                     = getInvoiceValue eng (paymentRequest depositInvoice))
            \<longrightarrow> (\<exists>m. fst r = Inl (PublicError m)) \<and>
                snd r = s\<lparr>log_lines := log_lines (snd r)\<rparr> \<and>
                map status (orders (snd r)) = map status (orders s))"
  unfolding r_def placeOrder_def using assms(2)
  by (auto simp: Let_def logger_error_def logger_info_def refundCancelled_frame
           split: option.splits)

text \<open>
  The theorem at the concrete relayer, with an engine that reports no invoice paid: the
  order \<open>o1\<close> is found, the call throws a \<open>PublicError\<close>, and the orders are as before.
\<close>

theorem placeOrder_placed_only_if_paid_and_equal_witness:
  "findOne (\<lambda>x. orderId x = po_orderId exPlace) (orders (exRelayer CREATED)) = Some (exOrder CREATED)
   \<and> (\<exists>m. fst (placeOrder (exEngine\<lparr>isInvoicePaid := (\<lambda>pr. False)\<rparr>) exPlace (exRelayer CREATED))
            = Inl (PublicError m))
   \<and> map status (orders (snd (placeOrder (exEngine\<lparr>isInvoicePaid := (\<lambda>pr. False)\<rparr>) exPlace
                                 (exRelayer CREATED))))
       = [CREATED]"
proof -
  have h: "findOne (\<lambda>x. orderId x = po_orderId exPlace) (orders (exRelayer CREATED))
             = Some (exOrder CREATED)"
    by (simp add: ex_defs)
  show ?thesis
    using h placeOrder_placed_only_if_paid_and_equal
              [OF h, of "exEngine\<lparr>isInvoicePaid := (\<lambda>pr. False)\<rparr>"]
    by (simp add: ex_defs)
qed

section \<open>FillOrder against an order that is not PLACED\<close>

text \<open>
  C3. A FillOrder call whose fill, order and invoices exist, whose invoices are paid, whose
  refund values equal the invoice values and whose four balance checks pass, on an order
  whose status is not PLACED: the call asks the engine to pay the fee refund and the
  deposit refund of this fill, records each payment's preimage on the refund invoice it has
  just stored, and throws the \<open>PublicError\<close> with the message \<open>ORDER_NOT_PLACED\<close>. No fill
  and no order is changed, and nothing is set on the messenger.
\<close>

theorem fillOrder_not_placed_refunds:
  fixes eng params s
  defines "r \<equiv> fillOrder eng params s"
  assumes "findOne (\<lambda>f. fillId f = fo_fillId params) (fills s) = Some fil"
    and "findOne (\<lambda>x. o_id x = order_id fil) (orders s) = Some ord"
    and "invoicesForFill (f_id fil) s = Inr (feeInvoice, depositInvoice)"
    and "isInvoicePaid eng (paymentRequest feeInvoice)"
    and "isInvoicePaid eng (paymentRequest depositInvoice)"
    and "getInvoiceValue eng (paymentRequest feeInvoice)
           = getInvoiceValue eng (fo_feeRefundPaymentRequest params)"
    and "getInvoiceValue eng (paymentRequest depositInvoice)
           = getInvoiceValue eng (fo_depositRefundPaymentRequest params)"
    and "isBalanceSufficient eng (drop 3 (payTo ord)) (counterAmount ord) True"
    and "isBalanceSufficient eng (drop 3 (payTo ord)) (baseAmount ord) False"
    and "isBalanceSufficient eng (drop 3 (takerPayTo fil)) (counterAmount ord) True"
    and "isBalanceSufficient eng (drop 3 (takerPayTo fil)) (baseAmount ord) False"
    and "status ord \<noteq> PLACED"
  shows "fst r = Inl (PublicError (ORDER_NOT_PLACED (orderId ord))) \<and>
         payments (snd r) = payments s @ [fo_feeRefundPaymentRequest params,
                                          fo_depositRefundPaymentRequest params] \<and>
         feeRefundInvoices (snd r) = feeRefundInvoices s @
           [\<lparr>foreignId = f_id fil, foreignType = Some FILL,
             paymentRequest = fo_feeRefundPaymentRequest params,
             invoiceType = Some OUTGOING, purpose = Some FEE,
             preimage = Some (payInvoice eng (fo_feeRefundPaymentRequest params))\<rparr>] \<and>
         depositRefundInvoices (snd r) = depositRefundInvoices s @
           [\<lparr>foreignId = f_id fil, foreignType = Some FILL,
             paymentRequest = fo_depositRefundPaymentRequest params,
             invoiceType = Some OUTGOING, purpose = Some DEPOSIT,
             preimage = Some (payInvoice eng (fo_depositRefundPaymentRequest params))\<rparr>] \<and>
         fills (snd r) = fills s \<and> orders (snd r) = orders s \<and>
         messages (snd r) = messages s \<and> events (snd r) = events s"
  unfolding r_def fillOrder_def using assms(2-)
  by (simp add: Let_def checkChannelBalances_def createRefundInvoices_def logger_info_def
        saveCreated_create markAsPaid_def)

text \<open>
  The theorem at the concrete relayer, with the order already FILLED by another fill: both
  refunds of \<open>f1\<close> are paid and recorded, the fill stays as created and the order FILLED.
\<close>

theorem fillOrder_not_placed_refunds_witness:
  "status (exOrder FILLED) \<noteq> PLACED \<and>
   fst (fillOrder exEngine exFillParams (exRelayer FILLED))
     = Inl (PublicError (ORDER_NOT_PLACED ''o1'')) \<and>
   payments (snd (fillOrder exEngine exFillParams (exRelayer FILLED)))
     = [''refund-fee-f1'', ''refund-dep-f1''] \<and>
   map preimage (feeRefundInvoices (snd (fillOrder exEngine exFillParams (exRelayer FILLED))))
     = [Some ''paid:refund-fee-f1''] \<and>
   map preimage (depositRefundInvoices (snd (fillOrder exEngine exFillParams (exRelayer FILLED))))
     = [Some ''paid:refund-dep-f1''] \<and>
   map fill_status (fills (snd (fillOrder exEngine exFillParams (exRelayer FILLED))))
     = [FILL_CREATED] \<and>
   map status (orders (snd (fillOrder exEngine exFillParams (exRelayer FILLED)))) = [FILLED]"
proof -
  have a: "status (exOrder FILLED) \<noteq> PLACED" by (simp add: ex_defs)
  note b = ex_engine_answers
  from fillOrder_not_placed_refunds
         [OF ex_fill_found ex_order_found ex_invoicesForFill b(1) b(1) b(2) b(2) b(3) b(3) b(3) b(3) a]
  show ?thesis using a by (simp add: ex_defs)
qed

section \<open>FillOrder: the amounts of the balance checks\<close>

text \<open>
  C10. For a FillOrder call that has found its fill, its order and its invoices, with the
  invoices paid and the refund values equal: what the call returns or throws is decided by
  four answers of the engine, each on an amount of the parent order. The maker's address
  and then the taker's address are asked for outbound sufficiency on the order's counter
  amount and for inbound sufficiency on the order's base amount; the first answer that is
  not sufficient throws the outbound or the inbound error, and when all four are
  sufficient the call goes on to the status of the order. No other balance answer has a
  part: an engine that agrees on these four, and on the invoices and payments, gives the
  same call, result and state. The fill amount has no part either: whatever the fill
  amounts of the stored fills, the call returns or throws the same.
\<close>

theorem fillOrder_balance_checks_use_order_amounts:
  assumes "findOne (\<lambda>f. fillId f = fo_fillId params) (fills s) = Some fil"
    and "findOne (\<lambda>x. o_id x = order_id fil) (orders s) = Some ord"
    and "invoicesForFill (f_id fil) s = Inr (feeInvoice, depositInvoice)"
    and "isInvoicePaid eng (paymentRequest feeInvoice)"
    and "isInvoicePaid eng (paymentRequest depositInvoice)"
    and "getInvoiceValue eng (paymentRequest feeInvoice)
           = getInvoiceValue eng (fo_feeRefundPaymentRequest params)"
    and "getInvoiceValue eng (paymentRequest depositInvoice)
           = getInvoiceValue eng (fo_depositRefundPaymentRequest params)"
  shows "fst (fillOrder eng params s) =
           (if \<not> isBalanceSufficient eng (drop 3 (payTo ord)) (counterAmount ord) True
            then Inl (PublicError (INSUFFICIENT_FUNDS_OUTBOUND (orderId ord)))
            else if \<not> isBalanceSufficient eng (drop 3 (payTo ord)) (baseAmount ord) False
            then Inl (PublicError (INSUFFICIENT_FUNDS_INBOUND (orderId ord)))
            else if \<not> isBalanceSufficient eng (drop 3 (takerPayTo fil)) (counterAmount ord) True
            then Inl (PublicError (INSUFFICIENT_FUNDS_OUTBOUND (orderId ord)))
            else if \<not> isBalanceSufficient eng (drop 3 (takerPayTo fil)) (baseAmount ord) False
            then Inl (PublicError (INSUFFICIENT_FUNDS_INBOUND (orderId ord)))
            else if status ord \<noteq> PLACED
            then Inl (PublicError (ORDER_NOT_PLACED (orderId ord)))
            else Inr EmptyObject)
         \<and> (\<forall>eng'.
               isInvoicePaid eng' = isInvoicePaid eng \<and>
               getInvoiceValue eng' = getInvoiceValue eng \<and>
               payInvoice eng' = payInvoice eng \<and>
               isBalanceSufficient eng' (drop 3 (payTo ord)) (counterAmount ord) True
                 = isBalanceSufficient eng (drop 3 (payTo ord)) (counterAmount ord) True \<and>
               isBalanceSufficient eng' (drop 3 (payTo ord)) (baseAmount ord) False
                 = isBalanceSufficient eng (drop 3 (payTo ord)) (baseAmount ord) False \<and>
               isBalanceSufficient eng' (drop 3 (takerPayTo fil)) (counterAmount ord) True
                 = isBalanceSufficient eng (drop 3 (takerPayTo fil)) (counterAmount ord) True \<and>
               isBalanceSufficient eng' (drop 3 (takerPayTo fil)) (baseAmount ord) False
                 = isBalanceSufficient eng (drop 3 (takerPayTo fil)) (baseAmount ord) False
               \<longrightarrow> fillOrder eng' params s = fillOrder eng params s)
         \<and> fst (fillOrder eng params (s\<lparr>fills := map (\<lambda>f. f\<lparr>fillAmount := amount f\<rparr>) (fills s)\<rparr>))
             = fst (fillOrder eng params s)"
proof (intro conjI allI impI)
  show "fst (fillOrder eng params s) =
           (if \<not> isBalanceSufficient eng (drop 3 (payTo ord)) (counterAmount ord) True
            then Inl (PublicError (INSUFFICIENT_FUNDS_OUTBOUND (orderId ord)))
            else if \<not> isBalanceSufficient eng (drop 3 (payTo ord)) (baseAmount ord) False
            then Inl (PublicError (INSUFFICIENT_FUNDS_INBOUND (orderId ord)))
            else if \<not> isBalanceSufficient eng (drop 3 (takerPayTo fil)) (counterAmount ord) True
            then Inl (PublicError (INSUFFICIENT_FUNDS_OUTBOUND (orderId ord)))
            else if \<not> isBalanceSufficient eng (drop 3 (takerPayTo fil)) (baseAmount ord) False
            then Inl (PublicError (INSUFFICIENT_FUNDS_INBOUND (orderId ord)))
            else if status ord \<noteq> PLACED
            then Inl (PublicError (ORDER_NOT_PLACED (orderId ord)))
            else Inr EmptyObject)"
    unfolding fillOrder_def using assms
    by (simp add: Let_def checkChannelBalances_def)
next
  fix eng' :: engine
  assume "isInvoicePaid eng' = isInvoicePaid eng \<and>
          getInvoiceValue eng' = getInvoiceValue eng \<and>
          payInvoice eng' = payInvoice eng \<and>
          isBalanceSufficient eng' (drop 3 (payTo ord)) (counterAmount ord) True
            = isBalanceSufficient eng (drop 3 (payTo ord)) (counterAmount ord) True \<and>
          isBalanceSufficient eng' (drop 3 (payTo ord)) (baseAmount ord) False
            = isBalanceSufficient eng (drop 3 (payTo ord)) (baseAmount ord) False \<and>
          isBalanceSufficient eng' (drop 3 (takerPayTo fil)) (counterAmount ord) True
            = isBalanceSufficient eng (drop 3 (takerPayTo fil)) (counterAmount ord) True \<and>
          isBalanceSufficient eng' (drop 3 (takerPayTo fil)) (baseAmount ord) False
            = isBalanceSufficient eng (drop 3 (takerPayTo fil)) (baseAmount ord) False"
  then show "fillOrder eng' params s = fillOrder eng params s"
    unfolding fillOrder_def using assms
    by (simp add: Let_def checkChannelBalances_def)
next
  show "fst (fillOrder eng params (s\<lparr>fills := map (\<lambda>f. f\<lparr>fillAmount := amount f\<rparr>) (fills s)\<rparr>))
          = fst (fillOrder eng params s)"
    by (rule fillOrder_ignores_fillAmount)
qed

text \<open>
  The theorem at the concrete relayer, with the order placed. An engine that finds a
  balance sufficient only up to the fill amount 100000 fails the maker's outbound check,
  the counter amount being 500000. An engine that accepts exactly the order's counter
  amount outbound and base amount inbound passes all four checks, and the call it gives is
  the call of the engine that finds every balance sufficient.
\<close>

theorem fillOrder_balance_checks_use_order_amounts_witness:
  "fst (fillOrder (exEngine\<lparr>isBalanceSufficient := (\<lambda>ad v out. v \<le> fillAmount exFill)\<rparr>)
          exFillParams (exRelayer PLACED))
     = Inl (PublicError (INSUFFICIENT_FUNDS_OUTBOUND ''o1'')) \<and>
   fst (fillOrder (exEngine\<lparr>isBalanceSufficient :=
                              (\<lambda>ad v out. v = (if out then counterAmount (exOrder PLACED)
                                                else baseAmount (exOrder PLACED)))\<rparr>)
          exFillParams (exRelayer PLACED))
     = Inr EmptyObject \<and>
   fillOrder (exEngine\<lparr>isBalanceSufficient := (\<lambda>ad v out. v = (if out then 500000 else 100000))\<rparr>)
       exFillParams (exRelayer PLACED)
     = fillOrder exEngine exFillParams (exRelayer PLACED)"
proof -
  note f = ex_fill_found [of PLACED]
  note ob = ex_order_found [of PLACED]
  note i = ex_invoicesForFill [of PLACED]
  note b = ex_engine_answers
  have 1: "fst (fillOrder (exEngine\<lparr>isBalanceSufficient := (\<lambda>ad v out. v \<le> fillAmount exFill)\<rparr>)
                  exFillParams (exRelayer PLACED))
             = Inl (PublicError (INSUFFICIENT_FUNDS_OUTBOUND ''o1''))"
    using fillOrder_balance_checks_use_order_amounts
            [of exFillParams "exRelayer PLACED" exFill "exOrder PLACED"
                "exInvoice ''b1'' FILL FEE ''fee-f1''" "exInvoice ''b1'' FILL DEPOSIT ''dep-f1''"
                "exEngine\<lparr>isBalanceSufficient := (\<lambda>ad v out. v \<le> fillAmount exFill)\<rparr>",
             OF f ob i, THEN conjunct1]
    by (simp add: ex_defs)
  have 2: "fst (fillOrder (exEngine\<lparr>isBalanceSufficient :=
                              (\<lambda>ad v out. v = (if out then counterAmount (exOrder PLACED)
                                                else baseAmount (exOrder PLACED)))\<rparr>)
                  exFillParams (exRelayer PLACED))
             = Inr EmptyObject"
    using fillOrder_balance_checks_use_order_amounts
            [of exFillParams "exRelayer PLACED" exFill "exOrder PLACED"
                "exInvoice ''b1'' FILL FEE ''fee-f1''" "exInvoice ''b1'' FILL DEPOSIT ''dep-f1''"
                "exEngine\<lparr>isBalanceSufficient :=
                              (\<lambda>ad v out. v = (if out then counterAmount (exOrder PLACED)
                                                else baseAmount (exOrder PLACED)))\<rparr>",
             OF f ob i, THEN conjunct1]
    by (simp add: ex_defs)
  have 3: "fillOrder (exEngine\<lparr>isBalanceSufficient := (\<lambda>ad v out. v = (if out then 500000 else 100000))\<rparr>)
               exFillParams (exRelayer PLACED)
             = fillOrder exEngine exFillParams (exRelayer PLACED)"
    by (rule fillOrder_balance_checks_use_order_amounts
               [OF f ob i b(1) b(1) b(2) b(2),
                THEN conjunct2, THEN conjunct1, THEN spec, THEN mp])
       (simp add: ex_defs)
  from 1 2 3 show ?thesis by blast
qed

section \<open>FillOrder: the order of its checks\<close>

text \<open>
  C6. FillOrder does not check in the order of PlaceOrder. With an engine that finds no
  balance sufficient and gives a refund request a value other than its invoice's,
  PlaceOrder throws the outbound balance error and FillOrder the unequal fee values: the
  balance checks of FillOrder come after the comparison of the values. With an engine
  that reports no invoice paid, PlaceOrder throws a \<open>PublicError\<close> with the reason for the
  caller, and FillOrder a plain \<open>Error\<close>.
\<close>

theorem fillOrder_values_before_balances:
  "fst (placeOrder (exEngine\<lparr>isBalanceSufficient := (\<lambda>ad v out. False),
                             getInvoiceValue := (\<lambda>pr. int (length pr))\<rparr>)
          exPlace (exRelayer CREATED))
     = Inl (PublicError (INSUFFICIENT_FUNDS_OUTBOUND ''o1'')) \<and>
   fst (fillOrder (exEngine\<lparr>isBalanceSufficient := (\<lambda>ad v out. False),
                            getInvoiceValue := (\<lambda>pr. int (length pr))\<rparr>)
          exFillParams (exRelayer PLACED))
     = Inl (PublicError (FEE_VALUES_UNEQUAL ''o1'')) \<and>
   fst (placeOrder (exEngine\<lparr>isInvoicePaid := (\<lambda>pr. False)\<rparr>) exPlace (exRelayer CREATED))
     = Inl (PublicError (FEE_NOT_PAID ''o1'')) \<and>
   fst (fillOrder (exEngine\<lparr>isInvoicePaid := (\<lambda>pr. False)\<rparr>) exFillParams (exRelayer PLACED))
     = Inl (PlainError ''Fee Invoice for Order o1 has not been paid.'')"
  by (simp add: placeOrder_def fillOrder_def invoicesForFill_def ex_defs)

section \<open>PlaceOrder on a cancelled order\<close>





section \<open>The notification channel: a delivered value stays\<close>

text \<open>
  C7. On the notification channel as the spec has it: after a value is delivered under a
  key, an \<open>awaitOnce\<close> on the key completes at once with the value and leaves the channel
  as it was, so a second \<open>awaitOnce\<close> on the key observes the same value; a later delivery
  under the key supersedes it. On the new channel an \<open>awaitOnce\<close> waits, and the delivery
  that follows wakes it with the value.
\<close>

theorem deliver_stays_retrievable:
  "fst (awaitOnce p1 key (deliver key v ch)) = Some v \<and>
   snd (awaitOnce p1 key (deliver key v ch)) = deliver key v ch \<and>
   fst (awaitOnce p2 key (snd (awaitOnce p1 key (deliver key v ch)))) = Some v \<and>
   fst (awaitOnce p1 key (deliver key v' (deliver key v ch))) = Some v' \<and>
   fst (awaitOnce p1 key (newChannel :: channel)) = None \<and>
   woken (deliver key v (snd (awaitOnce p1 key newChannel))) = [(p1, v)]"
  by (simp add: awaitOnce_def deliver_def newChannel_def)

text \<open>The example of the spec: \<open>fill-7\<close> delivered under \<open>order-42\<close>, and awaited twice.\<close>

theorem deliver_stays_retrievable_witness:
  "fst (awaitOnce 1 ''order-42'' (deliver ''order-42'' ''fill-7'' newChannel)) = Some ''fill-7'' \<and>
   fst (awaitOnce 2 ''order-42''
          (snd (awaitOnce 1 ''order-42'' (deliver ''order-42'' ''fill-7'' newChannel))))
     = Some ''fill-7''"
  using deliver_stays_retrievable [of 1 "''order-42''" "''fill-7''" newChannel 2 "''fill-8''"]
  by (simp add: awaitOnce_def deliver_def newChannel_def)

section \<open>PlaceOrder: what a successful call returns\<close>

text \<open>
  C9, as the claim states it, fails. \<^verbatim>\<open>placeOrder\<close> is a function of the engine, the
  request and the stored records alone; it takes no message queue and no messenger. A
  successful call on a created order returns the one empty response, which carries neither
  a status nor a fill; the call has then placed the order and emitted the placed event, and
  nothing has been set on the messenger.
\<close>

theorem placeOrder_returns_empty_counterexample:
  "fst (placeOrder exEngine exPlace (exRelayer CREATED)) = Inr EmptyResponse \<and>
   map status (orders (snd (placeOrder exEngine exPlace (exRelayer CREATED)))) = [PLACED] \<and>
   events (snd (placeOrder exEngine exPlace (exRelayer CREATED)))
     = [(''order:placed'', exOrder PLACED)] \<and>
   messages (snd (placeOrder exEngine exPlace (exRelayer CREATED))) = []"
  by (simp add: placeOrder_def ex_defs create_def logger_info_def Let_def Order_place_def)

text \<open>
  C9, amended. A PlaceOrder call that succeeds on an order whose status is not CANCELLED
  returns the empty response at once; the order it found then has status PLACED, one
  \<open>order:placed\<close> event carrying that order has been emitted, and nothing has been paid or
  set on the messenger. The call does not wait for a fill.
\<close>

theorem placeOrder_places_and_returns:
  fixes eng params s
  defines "r \<equiv> placeOrder eng params s"
  assumes "findOne (\<lambda>x. orderId x = po_orderId params) (orders s) = Some ord"
    and "status ord \<noteq> CANCELLED"
    and "fst r = Inr response"
  shows "response = EmptyResponse \<and>
         findOne (\<lambda>x. orderId x = po_orderId params) (orders (snd r)) = Some (ord\<lparr>status := PLACED\<rparr>) \<and>
         events (snd r) = events s @ [(''order:placed'', ord\<lparr>status := PLACED\<rparr>)] \<and>
         messages (snd r) = messages s \<and> payments (snd r) = payments s"
  using assms(2-) unfolding r_def placeOrder_def
  by (auto simp: Let_def logger_info_def logger_error_def findOne_saveFound Order_place_def
           split: option.splits if_splits)

text \<open>The theorem at the concrete relayer with the order created.\<close>

theorem placeOrder_places_and_returns_witness:
  "status (exOrder CREATED) \<noteq> CANCELLED \<and>
   fst (placeOrder exEngine exPlace (exRelayer CREATED)) = Inr EmptyResponse \<and>
   findOne (\<lambda>x. orderId x = po_orderId exPlace)
       (orders (snd (placeOrder exEngine exPlace (exRelayer CREATED))))
     = Some (exOrder PLACED) \<and>
   events (snd (placeOrder exEngine exPlace (exRelayer CREATED)))
     = [(''order:placed'', exOrder PLACED)]"
proof -
  have a: "status (exOrder CREATED) \<noteq> CANCELLED" by (simp add: ex_defs)
  have b: "fst (placeOrder exEngine exPlace (exRelayer CREATED)) = Inr EmptyResponse"
    by (simp add: placeOrder_def ex_defs Let_def)
  from placeOrder_places_and_returns [OF ex_order_by_orderId a b]
  show ?thesis using a b by (simp add: ex_defs)
qed

section \<open>FillOrder: a balance failure after the refund invoices are stored\<close>

text \<open>
  C5. FillOrder stores the two refund invoices before it checks the channel balances. At
  the concrete relayer, with an engine that finds no balance sufficient, the call throws
  the outbound balance error, and the refund invoice collections, empty before the call,
  hold one document each after it.
\<close>

theorem fillOrder_balance_failure_persists:
  "fst (fillOrder (exEngine\<lparr>isBalanceSufficient := (\<lambda>ad v out. False)\<rparr>) exFillParams
          (exRelayer PLACED))
     = Inl (PublicError (INSUFFICIENT_FUNDS_OUTBOUND ''o1'')) \<and>
   feeRefundInvoices (exRelayer PLACED) = [] \<and>
   depositRefundInvoices (exRelayer PLACED) = [] \<and>
   feeRefundInvoices (snd (fillOrder (exEngine\<lparr>isBalanceSufficient := (\<lambda>ad v out. False)\<rparr>)
                             exFillParams (exRelayer PLACED)))
     = [\<lparr>foreignId = ''b1'', foreignType = Some FILL, paymentRequest = ''refund-fee-f1'',
         invoiceType = Some OUTGOING, purpose = Some FEE, preimage = None\<rparr>] \<and>
   depositRefundInvoices (snd (fillOrder (exEngine\<lparr>isBalanceSufficient := (\<lambda>ad v out. False)\<rparr>)
                                 exFillParams (exRelayer PLACED)))
     = [\<lparr>foreignId = ''b1'', foreignType = Some FILL, paymentRequest = ''refund-dep-f1'',
         invoiceType = Some OUTGOING, purpose = Some DEPOSIT, preimage = None\<rparr>]"
  by (simp add: fillOrder_def invoicesForFill_def checkChannelBalances_def createRefundInvoices_def
        create_def logger_info_def logger_error_def Let_def ex_defs)

section \<open>PlaceOrder: a missing invoice\<close>

text \<open>
  C8. At the concrete relayer without the fee invoice of the order, PlaceOrder logs an
  error and throws the \<open>PublicError\<close> that asks for a new order; the order's status is
  still CREATED after the call, not CANCELLED.
\<close>

theorem placeOrder_missing_invoice_not_cancelled:
  "fst (placeOrder exEngine exPlace ((exRelayer CREATED)\<lparr>feeInvoices := []\<rparr>))
     = Inl (PublicError (NOT_PLACED ''o1'')) \<and>
   log_lines (snd (placeOrder exEngine exPlace ((exRelayer CREATED)\<lparr>feeInvoices := []\<rparr>)))
     = [(LogError, ''Fee invoice could not be found for order'')] \<and>
   map status (orders (snd (placeOrder exEngine exPlace ((exRelayer CREATED)\<lparr>feeInvoices := []\<rparr>))))
     = [CREATED]"
  by (simp add: placeOrder_def logger_error_def ex_defs)

section \<open>FillOrder: two calls racing for one order\<close>

text \<open>
  C2. Two FillOrder calls, for the fills \<open>f1\<close> and \<open>f2\<close> of one placed order, all invoices
  paid, all values equal and all balances sufficient. Both calls read their documents
  while the order is PLACED; the call for \<open>f1\<close> then runs to its end, and the call for
  \<open>f2\<close> writes after it. Both calls return the empty object: both fills are accepted,
  the order is FILLED, both fill ids have been set on the messenger, and nothing is paid.
  No call throws \<open>ORDER_NOT_PLACED\<close>. Had the second call read the order after the
  first had written, it would have thrown it.
\<close>

theorem fillOrder_race_both_accepted:
  "fst (fillOrder exEngine exFillParams exRace) = Inr EmptyObject \<and>
   fst (fillOrderAt exEngine exFillParams2 exRace (snd (fillOrder exEngine exFillParams exRace)))
     = Inr EmptyObject \<and>
   map fill_status
       (fills (snd (fillOrderAt exEngine exFillParams2 exRace
                      (snd (fillOrder exEngine exFillParams exRace)))))
     = [FILL_ACCEPTED, FILL_ACCEPTED] \<and>
   map status
       (orders (snd (fillOrderAt exEngine exFillParams2 exRace
                       (snd (fillOrder exEngine exFillParams exRace)))))
     = [FILLED] \<and>
   payments (snd (fillOrderAt exEngine exFillParams2 exRace
                    (snd (fillOrder exEngine exFillParams exRace))))
     = [] \<and>
   messages (snd (fillOrderAt exEngine exFillParams2 exRace
                    (snd (fillOrder exEngine exFillParams exRace))))
     = [(''fill:a1'', ''f1''), (''fill:a1'', ''f2'')] \<and>
   fst (fillOrder exEngine exFillParams2 (snd (fillOrder exEngine exFillParams exRace)))
     = Inl (PublicError (ORDER_NOT_PLACED ''o1''))"
  unfolding ex_race_first
  by (simp add: fillOrder_def fillOrderAt_def invoicesForFill_def checkChannelBalances_def
        createRefundInvoices_def create_def logger_info_def Fill_accept_def Order_fill_def
        Let_def ex_defs)

section \<open>Supporting facts: the failures that change nothing, and the success path\<close>

text \<open>
  A PlaceOrder call that throws a \<open>PublicError\<close> has changed nothing but the log: every
  check of PlaceOrder, the balance checks included, comes before the refund invoices are
  stored.
\<close>

lemma placeOrder_PublicError_changes_nothing:
  assumes "fst (placeOrder eng params s) = Inl (PublicError m)"
  shows "snd (placeOrder eng params s) = s\<lparr>log_lines := log_lines (snd (placeOrder eng params s))\<rparr>"
proof -
  have "fst (placeOrder eng params s) = Inl (PublicError m) \<longrightarrow>
        snd (placeOrder eng params s) = s\<lparr>log_lines := log_lines (snd (placeOrder eng params s))\<rparr>"
    unfolding placeOrder_def
    by (simp add: Let_def logger_error_def refundCancelled_frame split: option.splits)
  with assms show ?thesis by blast
qed

text \<open>At the concrete relayer, with an engine that finds only outbound balances sufficient.\<close>

lemma placeOrder_PublicError_changes_nothing_example:
  "fst (placeOrder (exEngine\<lparr>isBalanceSufficient := (\<lambda>ad v out. out)\<rparr>) exPlace (exRelayer CREATED))
     = Inl (PublicError (INSUFFICIENT_FUNDS_INBOUND ''o1'')) \<and>
   snd (placeOrder (exEngine\<lparr>isBalanceSufficient := (\<lambda>ad v out. out)\<rparr>) exPlace (exRelayer CREATED))
     = (exRelayer CREATED)
         \<lparr>log_lines := [(LogError, ''Insufficient funds in inbound channel for order'')]\<rparr>"
proof -
  have a: "fst (placeOrder (exEngine\<lparr>isBalanceSufficient := (\<lambda>ad v out. out)\<rparr>) exPlace
                  (exRelayer CREATED))
             = Inl (PublicError (INSUFFICIENT_FUNDS_INBOUND ''o1''))"
    by (simp add: placeOrder_def ex_defs)
  have b: "log_lines (snd (placeOrder (exEngine\<lparr>isBalanceSufficient := (\<lambda>ad v out. out)\<rparr>) exPlace
                  (exRelayer CREATED)))
             = [(LogError, ''Insufficient funds in inbound channel for order'')]"
    by (simp add: placeOrder_def logger_error_def ex_defs)
  from placeOrder_PublicError_changes_nothing [OF a]
  show ?thesis using a b by simp
qed

text \<open>
  A FillOrder call that finds an invoice unpaid or a refund value unequal throws and has
  changed nothing but the log: these checks come before the refund invoices are stored.
\<close>

lemma fillOrder_unpaid_or_unequal_changes_nothing:
  fixes eng params s
  defines "r \<equiv> fillOrder eng params s"
  assumes "findOne (\<lambda>f. fillId f = fo_fillId params) (fills s) = Some fil"
    and "findOne (\<lambda>x. o_id x = order_id fil) (orders s) = Some ord"
    and "invoicesForFill (f_id fil) s = Inr (feeInvoice, depositInvoice)"
    and "\<not> (isInvoicePaid eng (paymentRequest feeInvoice) \<and>
            isInvoicePaid eng (paymentRequest depositInvoice) \<and>
            getInvoiceValue eng (paymentRequest feeInvoice)
              = getInvoiceValue eng (fo_feeRefundPaymentRequest params) \<and>
            getInvoiceValue eng (paymentRequest depositInvoice)
              = getInvoiceValue eng (fo_depositRefundPaymentRequest params))"
  shows "(\<exists>e. fst r = Inl e) \<and> snd r = s\<lparr>log_lines := log_lines (snd r)\<rparr>"
  using assms(2-) unfolding r_def fillOrder_def
  by (auto simp: Let_def logger_error_def)

text \<open>At the concrete relayer, with an engine that reports only the fee invoice paid.\<close>

lemma fillOrder_unpaid_or_unequal_changes_nothing_example:
  "(\<exists>e. fst (fillOrder (exEngine\<lparr>isInvoicePaid := (\<lambda>pr. pr = ''fee-f1'')\<rparr>) exFillParams
                 (exRelayer PLACED)) = Inl e) \<and>
   snd (fillOrder (exEngine\<lparr>isInvoicePaid := (\<lambda>pr. pr = ''fee-f1'')\<rparr>) exFillParams
          (exRelayer PLACED)) = exRelayer PLACED"
proof -
  have a: "\<not> (isInvoicePaid (exEngine\<lparr>isInvoicePaid := (\<lambda>pr. pr = ''fee-f1'')\<rparr>)
                (paymentRequest (exInvoice ''b1'' FILL FEE ''fee-f1'')) \<and>
              isInvoicePaid (exEngine\<lparr>isInvoicePaid := (\<lambda>pr. pr = ''fee-f1'')\<rparr>)
                (paymentRequest (exInvoice ''b1'' FILL DEPOSIT ''dep-f1'')) \<and>
              getInvoiceValue (exEngine\<lparr>isInvoicePaid := (\<lambda>pr. pr = ''fee-f1'')\<rparr>)
                (paymentRequest (exInvoice ''b1'' FILL FEE ''fee-f1''))
                = getInvoiceValue (exEngine\<lparr>isInvoicePaid := (\<lambda>pr. pr = ''fee-f1'')\<rparr>)
                    (fo_feeRefundPaymentRequest exFillParams) \<and>
              getInvoiceValue (exEngine\<lparr>isInvoicePaid := (\<lambda>pr. pr = ''fee-f1'')\<rparr>)
                (paymentRequest (exInvoice ''b1'' FILL DEPOSIT ''dep-f1''))
                = getInvoiceValue (exEngine\<lparr>isInvoicePaid := (\<lambda>pr. pr = ''fee-f1'')\<rparr>)
                    (fo_depositRefundPaymentRequest exFillParams))"
    by (simp add: ex_defs)
  have b: "log_lines (snd (fillOrder (exEngine\<lparr>isInvoicePaid := (\<lambda>pr. pr = ''fee-f1'')\<rparr>)
                             exFillParams (exRelayer PLACED))) = log_lines (exRelayer PLACED)"
    by (simp add: fillOrder_def invoicesForFill_def ex_defs)
  from fillOrder_unpaid_or_unequal_changes_nothing
         [OF ex_fill_found ex_order_found ex_invoicesForFill a, of PLACED]
  show ?thesis unfolding b by simp
qed

text \<open>
  A FillOrder call whose checks all pass on an order that is PLACED returns the empty
  object; the fill is then accepted, the order FILLED, and the fill's id has been set on the
  messenger under \<open>fill:\<close> and the order's id. Nothing is paid and no event is emitted.
\<close>

lemma fillOrder_success_accepts:
  fixes eng params s
  defines "r \<equiv> fillOrder eng params s"
  assumes "findOne (\<lambda>f. fillId f = fo_fillId params) (fills s) = Some fil"
    and "findOne (\<lambda>x. o_id x = order_id fil) (orders s) = Some ord"
    and "invoicesForFill (f_id fil) s = Inr (feeInvoice, depositInvoice)"
    and "isInvoicePaid eng (paymentRequest feeInvoice)"
    and "isInvoicePaid eng (paymentRequest depositInvoice)"
    and "getInvoiceValue eng (paymentRequest feeInvoice)
           = getInvoiceValue eng (fo_feeRefundPaymentRequest params)"
    and "getInvoiceValue eng (paymentRequest depositInvoice)
           = getInvoiceValue eng (fo_depositRefundPaymentRequest params)"
    and "isBalanceSufficient eng (drop 3 (payTo ord)) (counterAmount ord) True"
    and "isBalanceSufficient eng (drop 3 (payTo ord)) (baseAmount ord) False"
    and "isBalanceSufficient eng (drop 3 (takerPayTo fil)) (counterAmount ord) True"
    and "isBalanceSufficient eng (drop 3 (takerPayTo fil)) (baseAmount ord) False"
    and "status ord = PLACED"
  shows "fst r = Inr EmptyObject \<and>
         findOne (\<lambda>f. fillId f = fo_fillId params) (fills (snd r))
           = Some (fil\<lparr>fill_status := FILL_ACCEPTED\<rparr>) \<and>
         findOne (\<lambda>x. o_id x = order_id fil) (orders (snd r)) = Some (ord\<lparr>status := FILLED\<rparr>) \<and>
         messages (snd r) = messages s @ [(''fill:'' @ o_id ord, fillId fil)] \<and>
         payments (snd r) = payments s \<and> events (snd r) = events s"
  unfolding r_def fillOrder_def using assms(2-)
  by (simp add: Let_def checkChannelBalances_def createRefundInvoices_def logger_info_def
        findOne_saveFound Fill_accept_def Order_fill_def)

text \<open>At the concrete relayer with the order placed.\<close>

lemma fillOrder_success_accepts_example:
  "status (exOrder PLACED) = PLACED \<and>
   fst (fillOrder exEngine exFillParams (exRelayer PLACED)) = Inr EmptyObject \<and>
   map fill_status (fills (snd (fillOrder exEngine exFillParams (exRelayer PLACED))))
     = [FILL_ACCEPTED] \<and>
   map status (orders (snd (fillOrder exEngine exFillParams (exRelayer PLACED)))) = [FILLED] \<and>
   messages (snd (fillOrder exEngine exFillParams (exRelayer PLACED))) = [(''fill:a1'', ''f1'')]"
proof -
  have a: "status (exOrder PLACED) = PLACED" by (simp add: ex_defs)
  note b = ex_engine_answers
  from fillOrder_success_accepts
         [OF ex_fill_found ex_order_found ex_invoicesForFill b(1) b(1) b(2) b(2) b(3) b(3) b(3) b(3) a]
  show ?thesis using a
    by (simp add: ex_defs fillOrder_def invoicesForFill_def checkChannelBalances_def
          createRefundInvoices_def logger_info_def Fill_accept_def Order_fill_def Let_def)
qed

text \<open>
  What FillOrder returns or throws, as a function of the documents found and the answers
  of the engine: the checks in the order of the call.
\<close>

lemma fillOrder_outcome:
  "fst (fillOrder eng params s) =
     (case findOne (\<lambda>f. fillId f = fo_fillId params) (fills s) of
        None \<Rightarrow> Inl (PlainError (''No fill with ID '' @ fo_fillId params @ ''.''))
      | Some fil \<Rightarrow>
      (case findOne (\<lambda>x. o_id x = order_id fil) (orders s) of
        None \<Rightarrow> Inl (PlainError (''No order associated with fill '' @ fillId fil @ ''.''))
      | Some ord \<Rightarrow>
      (case invoicesForFill (f_id fil) s of
        Inl e \<Rightarrow> Inl e
      | Inr (feeInvoice, depositInvoice) \<Rightarrow>
          if \<not> isInvoicePaid eng (paymentRequest feeInvoice)
          then Inl (PlainError (''Fee Invoice for Order '' @ orderId ord @ '' has not been paid.''))
          else if \<not> isInvoicePaid eng (paymentRequest depositInvoice)
          then Inl (PlainError (''Deposit Invoice for Order '' @ orderId ord @ '' has not been paid.''))
          else if getInvoiceValue eng (paymentRequest feeInvoice)
                    \<noteq> getInvoiceValue eng (fo_feeRefundPaymentRequest params)
          then Inl (PublicError (FEE_VALUES_UNEQUAL (orderId ord)))
          else if getInvoiceValue eng (paymentRequest depositInvoice)
                    \<noteq> getInvoiceValue eng (fo_depositRefundPaymentRequest params)
          then Inl (PublicError (DEPOSIT_VALUES_UNEQUAL (orderId ord)))
          else if \<not> isBalanceSufficient eng (drop 3 (payTo ord)) (counterAmount ord) True
          then Inl (PublicError (INSUFFICIENT_FUNDS_OUTBOUND (orderId ord)))
          else if \<not> isBalanceSufficient eng (drop 3 (payTo ord)) (baseAmount ord) False
          then Inl (PublicError (INSUFFICIENT_FUNDS_INBOUND (orderId ord)))
          else if \<not> isBalanceSufficient eng (drop 3 (takerPayTo fil)) (counterAmount ord) True
          then Inl (PublicError (INSUFFICIENT_FUNDS_OUTBOUND (orderId ord)))
          else if \<not> isBalanceSufficient eng (drop 3 (takerPayTo fil)) (baseAmount ord) False
          then Inl (PublicError (INSUFFICIENT_FUNDS_INBOUND (orderId ord)))
          else if status ord \<noteq> PLACED
          then Inl (PublicError (ORDER_NOT_PLACED (orderId ord)))
          else Inr EmptyObject)))"
  unfolding fillOrder_def
  by (simp add: Let_def checkChannelBalances_def split: option.splits sum.splits prod.splits)

text \<open>
  A FillOrder call that succeeds has set the fill's id on the messenger: on the channel
  that has received every \<^verbatim>\<open>set\<close> of the relayer, an \<open>awaitOnce\<close> under \<open>fill:\<close> and
  the order's id completes at once with the id of the fill.
\<close>

lemma fillOrder_delivers_fill:
  assumes "fst (fillOrder eng params s) = Inr response"
    and "findOne (\<lambda>f. fillId f = fo_fillId params) (fills s) = Some fil"
    and "findOne (\<lambda>x. o_id x = order_id fil) (orders s) = Some ord"
  shows "fst (awaitOnce p (''fill:'' @ o_id ord)
                (setAll (messages (snd (fillOrder eng params s))) ch)) = Some (fillId fil)"
proof -
  have "fst (fillOrder eng params s) = Inr response \<longrightarrow>
        messages (snd (fillOrder eng params s)) = messages s @ [(''fill:'' @ o_id ord, fillId fil)]"
    unfolding fillOrder_def using assms(2,3)
    by (simp add: Let_def checkChannelBalances_def createRefundInvoices_def logger_info_def
          logger_error_def split: sum.splits prod.splits)
  with assms(1) show ?thesis
    by (simp add: setAll_append awaitOnce_def deliver_def)
qed

end
